theory Spec2Isabelle
  imports Main
begin

section \<open>The modal dialog of static/js/closure/goog/ui/dialog.js\<close>

text \<open>
  The file defines two classes: \<open>goog.ui.Dialog\<close>, a component with a title bar, a content
  area and a bar of buttons, and \<open>goog.ui.Dialog.ButtonSet\<close>, the ordered key-to-caption
  map behind that bar. This theory embeds the parts that decide how the dialog is shown,
  hidden, rendered and disposed, how it answers clicks and key presses, and how the button
  set is built and rendered.

  What is tracked: the fields of both classes that these paths read or write, the button
  elements below each container element, the element that has the focus, the listeners the
  dialog keeps through its event handler, and the events it has dispatched. What is not
  tracked: sizes, positions and opacity (\<open>resizeBackground_\<close>, \<open>reposition\<close>), the
  background mask elements, the dragger, the title and the content text.

  The private names of the source end in an underscore (\<open>visible_\<close>, \<open>onKeyDown_\<close>);
  here they are written without it.
\<close>

subsection \<open>Elements\<close>

text \<open>
  The elements a dialog creates for itself are named; \<open>Child c i\<close> is the \<open>i\<close>-th button
  created inside the container \<open>c\<close>, \<open>Body\<close> the document body, and \<open>Other n\<close> any
  element that does not belong to the dialog.
\<close>

datatype node = Root | ButtonBar | TitleClose | TabCatcher | Body | Child node nat | Other nat

text \<open>
  A caption is a string or a DOM node (\<open>@param {string|Element} caption\<close>). Of a node the
  model keeps only the text that JavaScript's \<open>String(node)\<close> yields.
\<close>

datatype caption = Text string | Node string

record element =
  tagName :: string
  name :: string
  ident :: string
  disabled :: bool
  className :: string
  content :: "caption option"
  self :: node

text \<open>
  The document, as far as the dialog reads it: for each element, the \<open>button\<close> elements
  among its descendants in document order, which is what
  \<open>getElementsByTagName('button')\<close> returns.
\<close>

type_synonym document = "node \<Rightarrow> element list"

datatype error = ALREADY_RENDERED | NOT_SUPPORTED | TypeError

text \<open>
  JavaScript's truthiness of a value of type \<open>string?\<close>: \<open>null\<close> and the empty string
  are falsy.
\<close>

definition truthy :: "string option \<Rightarrow> bool" where
  "truthy k = (case k of None \<Rightarrow> False | Some s \<Rightarrow> s \<noteq> [])"

subsection \<open>ButtonSet\<close>

text \<open>
  Modelled from the spec: \<open>goog.structs.Map\<close>, the superclass of the button set, is not
  among the sources. The spec calls the button set an "ordered mapping key\<rightarrow>caption" with
  "insertion order preserved": a list of entries in which \<open>set\<close> overwrites the value of a
  key that is present, in place, and appends a key that is new; \<open>get\<close> yields the value
  of a key, or \<open>undefined\<close> (here \<open>None\<close>); \<open>goog.structs.forEach\<close> visits the entries
  from first to last.
\<close>

fun Map_set :: "string \<Rightarrow> caption \<Rightarrow> (string \<times> caption) list \<Rightarrow> (string \<times> caption) list" where
  "Map_set k v [] = [(k, v)]"
| "Map_set k v (e # m) = (if fst e = k then (k, v) # m else e # Map_set k v m)"

definition Map_get :: "string \<Rightarrow> (string \<times> caption) list \<Rightarrow> caption option" where
  "Map_get k m = map_of m k"

definition getKeys :: "(string \<times> caption) list \<Rightarrow> string list" where
  "getKeys m = map fst m"

record ButtonSet =
  entries :: "(string \<times> caption) list"
  defaultButton :: "string option"
  cancelButton :: "string option"
  bs_element :: "node option"

definition ButtonSet_new :: ButtonSet where
  "ButtonSet_new = \<lparr>entries = [], defaultButton = None, cancelButton = None, bs_element = None\<rparr>"

text \<open>
  \<open>ButtonSet.prototype.set\<close>. The optional flags are tested for truthiness, so an absent
  flag is \<open>False\<close>.
\<close>

definition ButtonSet_set :: "string \<Rightarrow> caption \<Rightarrow> bool \<Rightarrow> bool \<Rightarrow> ButtonSet \<Rightarrow> ButtonSet" where
  "ButtonSet_set key cap opt_isDefault opt_isCancel bs =
     (let b1 = bs\<lparr>entries := Map_set key cap (entries bs)\<rparr>;
          b2 = (if opt_isDefault then b1\<lparr>defaultButton := Some key\<rparr> else b1);
          b3 = (if opt_isCancel then b2\<lparr>cancelButton := Some key\<rparr> else b2)
      in b3)"

definition setDefault :: "string option \<Rightarrow> ButtonSet \<Rightarrow> ButtonSet" where
  "setDefault key bs = bs\<lparr>defaultButton := key\<rparr>"

definition getDefault :: "ButtonSet \<Rightarrow> string option" where
  "getDefault bs = defaultButton bs"

definition setCancel :: "string option \<Rightarrow> ButtonSet \<Rightarrow> ButtonSet" where
  "setCancel key bs = bs\<lparr>cancelButton := key\<rparr>"

definition getCancel :: "ButtonSet \<Rightarrow> string option" where
  "getCancel bs = cancelButton bs"

text \<open>
  \<open>goog.getCssName(this.class_, 'default')\<close> with \<open>class_ = 'goog-buttonset'\<close>.
\<close>

definition defaultClass :: string where
  "defaultClass = ''goog-buttonset-default''"

text \<open>
  \<open>domHelper.createDom('button', {'name': key}, caption)\<close>: a fresh, enabled button
  without id or class.
\<close>

definition createButton :: "string \<Rightarrow> caption \<Rightarrow> node \<Rightarrow> element" where
  "createButton key cap n =
     \<lparr>tagName = ''BUTTON'', name = key, ident = [], disabled = False, className = [],
      content = Some cap, self = n\<rparr>"

text \<open>
  The body of the \<open>forEach\<close> callback in \<open>ButtonSet.prototype.render\<close>: create the
  button, mark it when its key is the default key, append it to the container.
\<close>

definition renderEntry :: "ButtonSet \<Rightarrow> node \<Rightarrow> document \<Rightarrow> string \<times> caption \<Rightarrow> document" where
  "renderEntry bs el dc e =
     (let button = createButton (fst e) (snd e) (Child el (length (dc el)));
          button' = (if Some (fst e) = defaultButton bs
                     then button\<lparr>className := defaultClass\<rparr> else button)
      in dc(el := dc el @ [button']))"

definition ButtonSet_render :: "ButtonSet \<Rightarrow> document \<Rightarrow> document" where
  "ButtonSet_render bs dc =
     (case bs_element bs of
        None \<Rightarrow> dc
      | Some el \<Rightarrow> foldl (renderEntry bs el) (dc(el := [])) (entries bs))"

definition attachToElement :: "node \<Rightarrow> ButtonSet \<Rightarrow> document \<Rightarrow> ButtonSet \<times> document" where
  "attachToElement el bs dc =
     (let bs' = bs\<lparr>bs_element := Some el\<rparr> in (bs', ButtonSet_render bs' dc))"

definition getAllButtons :: "ButtonSet \<Rightarrow> document \<Rightarrow> error + element list" where
  "getAllButtons bs dc = (case bs_element bs of None \<Rightarrow> Inl TypeError | Some el \<Rightarrow> Inr (dc el))"

definition getButton :: "string \<Rightarrow> ButtonSet \<Rightarrow> document \<Rightarrow> error + element option" where
  "getButton key bs dc =
     (case getAllButtons bs dc of
        Inl e \<Rightarrow> Inl e
      | Inr buttons \<Rightarrow> Inr (find (\<lambda>nextButton. name nextButton = key \<or> ident nextButton = key) buttons))"

text \<open>The predefined sets, built as the source builds them.\<close>

definition ButtonSet_OK :: ButtonSet where
  "ButtonSet_OK = ButtonSet_set ''ok'' (Text ''OK'') True False ButtonSet_new"

definition ButtonSet_OK_CANCEL :: ButtonSet where
  "ButtonSet_OK_CANCEL =
     ButtonSet_set ''cancel'' (Text ''Cancel'') False True
       (ButtonSet_set ''ok'' (Text ''OK'') True False ButtonSet_new)"

definition ButtonSet_YES_NO_CANCEL :: ButtonSet where
  "ButtonSet_YES_NO_CANCEL =
     ButtonSet_set ''cancel'' (Text ''Cancel'') False True
       (ButtonSet_set ''no'' (Text ''No'') True False
         (ButtonSet_set ''yes'' (Text ''Yes'') False False ButtonSet_new))"

text \<open>
  A run of calls on one button set, for statements about "every sequence of operations".
\<close>

datatype bs_op = Set string caption bool bool | SetDefault "string option" | SetCancel "string option"

fun apply_op :: "ButtonSet \<Rightarrow> bs_op \<Rightarrow> ButtonSet" where
  "apply_op bs (Set key cap isDefault isCancel) = ButtonSet_set key cap isDefault isCancel bs"
| "apply_op bs (SetDefault key) = setDefault key bs"
| "apply_op bs (SetCancel key) = setCancel key bs"

definition apply_ops :: "ButtonSet \<Rightarrow> bs_op list \<Rightarrow> ButtonSet" where
  "apply_ops bs ops = foldl apply_op bs ops"

text \<open>
  The invariant of the data model: a default key and a cancel key, when set, are keys of
  the mapping.
\<close>

definition keys_registered :: "ButtonSet \<Rightarrow> bool" where
  "keys_registered bs =
     ((case defaultButton bs of None \<Rightarrow> True | Some k \<Rightarrow> k \<in> set (getKeys (entries bs))) \<and>
      (case cancelButton bs of None \<Rightarrow> True | Some k \<Rightarrow> k \<in> set (getKeys (entries bs))))"

subsection \<open>Dialog: state\<close>

text \<open>
  \<open>goog.userAgent\<close>: the browser flags that \<open>setVisible\<close> reads.
\<close>

record userAgent =
  GECKO :: bool
  WEBKIT :: bool
  OPERA :: bool

text \<open>
  The listeners the dialog registers through \<open>getHandler()\<close>, each named after its event:
  \<open>KEYDOWN\<close> on the dialog element and \<open>RESIZE\<close> on the window (both capturing),
  \<open>BUTTON_CLICK\<close> on the button bar, \<open>TITLE_CLOSE_CLICK\<close> on the close box and
  \<open>FOCUSIN\<close> on the focus handler.
\<close>

datatype listener = KEYDOWN | RESIZE | BUTTON_CLICK | TITLE_CLOSE_CLICK | FOCUSIN

text \<open>
  The events a dialog dispatches: \<open>goog.ui.Dialog.Event\<close>, of type \<open>SELECT\<close>, with the
  button's key and caption (\<open>None\<close> for \<open>undefined\<close>), and \<open>AFTER_HIDE\<close>.
\<close>

datatype dlg_event = SELECT string "caption option" | AFTER_HIDE

text \<open>
  The fields of a dialog, then its surroundings: the listeners attached, the events
  dispatched so far, the document and the focused element. \<open>hasElement\<close> says that
  \<open>createDom\<close> has run and \<open>disposeInternal\<close> has not: \<open>getElement()\<close> and the
  sub-elements (\<open>buttonEl_\<close>, \<open>titleCloseEl_\<close>, \<open>tabCatcherEl_\<close>) are created together
  and released together. \<open>focusHandler\<close> says that \<open>focusHandler_\<close> is not \<open>null\<close>: the
  constructor creates the focus handler, \<open>disposeInternal\<close> disposes of it and sets the
  field to \<open>null\<close>, and nothing creates it again. \<open>shown\<close> is what
  \<open>goog.style.showElement\<close> last set on the dialog element.
\<close>

record Dialog =
  buttons :: "ButtonSet option"
  visible :: bool
  disposeOnHide :: bool
  inDocument :: bool
  disposed :: bool
  hasElement :: bool
  focusHandler :: bool
  shown :: bool
  listening :: "listener set"
  dispatched :: "dlg_event list"
  doc :: document
  activeElement :: node

type_synonym outcome = "error option \<times> Dialog"

text \<open>
  The constructor: the default button set is OK/Cancel, the focus handler is created,
  nothing is rendered yet.
\<close>

definition Dialog_new :: "document \<Rightarrow> node \<Rightarrow> Dialog" where
  "Dialog_new dc focused =
     \<lparr>buttons = Some ButtonSet_OK_CANCEL, visible = False, disposeOnHide = False,
      inDocument = False, disposed = False, hasElement = False, focusHandler = True,
      shown = False,
      listening = {}, dispatched = [], doc = dc, activeElement = focused\<rparr>"

definition getElement :: "Dialog \<Rightarrow> node option" where
  "getElement d = (if hasElement d then Some Root else None)"

definition buttonEl :: "Dialog \<Rightarrow> node option" where
  "buttonEl d = (if hasElement d then Some ButtonBar else None)"

definition isInDocument :: "Dialog \<Rightarrow> bool" where
  "isInDocument d = inDocument d"

definition isVisible :: "Dialog \<Rightarrow> bool" where
  "isVisible d = visible d"

definition getButtonSet :: "Dialog \<Rightarrow> ButtonSet option" where
  "getButtonSet d = buttons d"

definition setDisposeOnHide :: "bool \<Rightarrow> Dialog \<Rightarrow> Dialog" where
  "setDisposeOnHide b d = d\<lparr>disposeOnHide := b\<rparr>"

text \<open>
  Modelled from the spec: \<open>goog.events.EventHandler\<close> is not among the sources. The spec
  says that showing "attaches keydown/resize listeners" and hiding "detaches those
  listeners": \<open>listen\<close> adds a listener to those attached, \<open>unlisten\<close> takes it away.
\<close>

definition listen :: "listener \<Rightarrow> Dialog \<Rightarrow> Dialog" where
  "listen l d = d\<lparr>listening := insert l (listening d)\<rparr>"

definition unlisten :: "listener \<Rightarrow> Dialog \<Rightarrow> Dialog" where
  "unlisten l d = d\<lparr>listening := listening d - {l}\<rparr>"

text \<open>
  Modelled from the spec: \<open>goog.events.EventTarget.dispatchEvent\<close> is not among the
  sources. The spec speaks of "a cancelable selected notification" after which "hiding
  proceeds only if not canceled": the event reaches the listeners, whose joint answer
  \<open>L ev\<close> is \<open>False\<close> when one of them cancels it, and that answer is the result. The
  listeners are observers: they do not call back into the dialog.
\<close>

definition dispatchEvent :: "(dlg_event \<Rightarrow> bool) \<Rightarrow> dlg_event \<Rightarrow> Dialog \<Rightarrow> bool \<times> Dialog" where
  "dispatchEvent L ev d = (L ev, d\<lparr>dispatched := dispatched d @ [ev]\<rparr>)"

text \<open>
  Modelled from the spec: what \<open>focus()\<close> does is the browser's part. By the spec,
  "focus-setting failures on disabled controls are silently ignored": focusing an enabled
  element moves the focus to it, focusing a disabled one leaves the focus where it is
  (the exception some browsers raise is caught by the caller).
\<close>

definition focus :: "element \<Rightarrow> Dialog \<Rightarrow> Dialog" where
  "focus el d = (if disabled el then d else d\<lparr>activeElement := self el\<rparr>)"

subsection \<open>Dialog: rendering\<close>

text \<open>
  \<open>createDom\<close> builds the element tree, hides it, and renders the button set (if any)
  into the new, empty button bar.
\<close>

definition createDom :: "Dialog \<Rightarrow> Dialog" where
  "createDom d =
     (let d1 = d\<lparr>hasElement := True, shown := False, doc := (doc d)(ButtonBar := [])\<rparr>
      in case buttons d1 of
           None \<Rightarrow> d1
         | Some bs \<Rightarrow>
             (let r = attachToElement ButtonBar bs (doc d1)
              in d1\<lparr>buttons := Some (fst r), doc := snd r\<rparr>))"

text \<open>
  Modelled from the spec: \<open>goog.ui.Component\<close>, the superclass of the dialog, is not
  among the sources. By the spec's lifecycle a dialog is "created detached" and its DOM
  is built "on first render": the superclass \<open>enterDocument\<close> marks the component as in
  the document, and the superclass \<open>render\<close> attaches the element to the parent and calls
  \<open>enterDocument\<close> (a dialog is a top-level component, it has no parent component).

  \<open>Dialog.prototype.enterDocument\<close> calls the superclass method first and then adds the
  listener on the close box and the one on the focus handler, in this order. Listening
  to a source that is \<open>null\<close> raises a TypeError in the event library: that is what
  happens at \<open>listen(this.focusHandler_, ...)\<close> once the dialog has been disposed of, with
  the component already marked as in the document and the first listener attached.
\<close>

definition enterDocument :: "Dialog \<Rightarrow> outcome" where
  "enterDocument d =
     (let d1 = d\<lparr>inDocument := True\<rparr>;
          d2 = listen TITLE_CLOSE_CLICK d1
      in if focusHandler d2 then (None, listen FOCUSIN d2) else (Some TypeError, d2))"

text \<open>
  \<open>Dialog.prototype.render\<close>: the exception if the dialog is in the document already,
  \<open>createDom\<close> if there is no element yet, then the superclass \<open>render\<close>.
\<close>

definition Dialog_render :: "Dialog \<Rightarrow> outcome" where
  "Dialog_render d =
     (if isInDocument d then (Some ALREADY_RENDERED, d)
      else (let d1 = (if getElement d = None then createDom d else d)
            in enterDocument d1))"

definition renderBefore :: "node \<Rightarrow> Dialog \<Rightarrow> outcome" where
  "renderBefore sibling d = (Some NOT_SUPPORTED, d)"

definition setButtonSet :: "ButtonSet option \<Rightarrow> Dialog \<Rightarrow> Dialog" where
  "setButtonSet bs d =
     (let d1 = d\<lparr>buttons := bs\<rparr>
      in case buttonEl d1 of
           None \<Rightarrow> d1
         | Some be \<Rightarrow>
             (case buttons d1 of
                Some b \<Rightarrow> (let r = attachToElement be b (doc d1)
                           in d1\<lparr>buttons := Some (fst r), doc := snd r\<rparr>)
              | None \<Rightarrow> d1\<lparr>doc := (doc d1)(be := [])\<rparr>))"

subsection \<open>Dialog: showing and hiding\<close>

text \<open>
  The loop of \<open>setVisible\<close> over the buttons of the bar: the first button whose name is
  the default key.
\<close>

fun firstNamed :: "string \<Rightarrow> element list \<Rightarrow> element option" where
  "firstNamed k [] = None"
| "firstNamed k (button # rest) = (if name button = k then Some button else firstNamed k rest)"

definition keyOf :: "string option \<Rightarrow> string" where
  "keyOf k = (case k of None \<Rightarrow> [] | Some s \<Rightarrow> s)"

text \<open>
  Lines 819 to 854 of \<open>setVisible\<close>, run when the dialog is shown: on Gecko the dialog
  element takes the focus first; then, if the button set has a (truthy) default key and
  the bar holds a button of that name, the focus goes to that button. On WebKit and Opera
  a temporary input is focused and removed before that, which leaves the focus on the
  document body if the button then refuses it.
\<close>

definition focusDefaultButton :: "userAgent \<Rightarrow> Dialog \<Rightarrow> Dialog" where
  "focusDefaultButton ua d =
     (let d1 = (if GECKO ua then d\<lparr>activeElement := Root\<rparr> else d)
      in case getButtonSet d1 of
           None \<Rightarrow> d1
         | Some bs \<Rightarrow>
             (let defaultKey = getDefault bs
              in if truthy defaultKey
                 then (case firstNamed (keyOf defaultKey) (doc d1 ButtonBar) of
                         None \<Rightarrow> d1
                       | Some button \<Rightarrow>
                           (let d2 = (if WEBKIT ua \<or> OPERA ua
                                      then d1\<lparr>activeElement := Body\<rparr> else d1)
                            in focus button d2))
                 else d1))"

text \<open>
  \<open>setVisible\<close>, step by step as in the source: return if nothing changes; render if
  needed; attach or detach the keydown and resize listeners; show or hide the element; on
  showing, move the focus; record the new state; on hiding, detach the click listener,
  dispatch \<open>AFTER_HIDE\<close> (ignoring the listeners' answer) and dispose if so configured; on
  showing, attach the click listener. The calls of \<open>resizeBackground_\<close> and
  \<open>reposition\<close> on showing touch sizes, positions and the dragger's limits only, which
  the state does not hold.

  \<open>setVisible\<close> calls \<open>dispose\<close> when the dialog is to be disposed on hiding, and
  disposing leads back to \<open>setVisible(false)\<close> through \<open>exitDocument\<close> when the dialog is
  still visible, so the four functions are defined together.

  Modelled from the spec: \<open>goog.Disposable.dispose\<close> and the methods of
  \<open>goog.ui.Component\<close> that the dialog's \<open>disposeInternal\<close> and \<open>exitDocument\<close> call are
  not among the sources. By the spec a dialog is "destroyed via explicit disposal which
  detaches and nulls all element references": \<open>dispose\<close> runs \<open>disposeInternal\<close> once;
  the superclass part of \<open>disposeInternal\<close> leaves the document if the component is in
  it, drops the event handler with its listeners and releases the element; the
  superclass part of \<open>exitDocument\<close> removes the handler's listeners and clears
  \<open>inDocument_\<close>. The dialog's own part of \<open>disposeInternal\<close> then disposes of the focus
  handler and sets \<open>focusHandler_\<close> to \<open>null\<close>.
\<close>

function setVisible :: "userAgent \<Rightarrow> (dlg_event \<Rightarrow> bool) \<Rightarrow> bool \<Rightarrow> Dialog \<Rightarrow> outcome"
  and dispose :: "userAgent \<Rightarrow> (dlg_event \<Rightarrow> bool) \<Rightarrow> Dialog \<Rightarrow> outcome"
  and disposeInternal :: "userAgent \<Rightarrow> (dlg_event \<Rightarrow> bool) \<Rightarrow> Dialog \<Rightarrow> outcome"
  and exitDocument :: "userAgent \<Rightarrow> (dlg_event \<Rightarrow> bool) \<Rightarrow> Dialog \<Rightarrow> outcome"
where
  "setVisible ua L vis d =
     (if vis = visible d then (None, d)
      else case (if \<not> isInDocument d then Dialog_render d else (None, d)) of
             (Some e, d1) \<Rightarrow> (Some e, d1)
           | (None, d1) \<Rightarrow>
               (let d2 = (if vis then listen RESIZE (listen KEYDOWN d1)
                          else unlisten RESIZE (unlisten KEYDOWN d1));
                    d3 = d2\<lparr>shown := vis\<rparr>;
                    d4 = (if vis then focusDefaultButton ua d3 else d3);
                    d5 = d4\<lparr>visible := vis\<rparr>
                in if \<not> vis
                   then (let d6 = snd (dispatchEvent L AFTER_HIDE (unlisten BUTTON_CLICK d5))
                         in if disposeOnHide d6 then dispose ua L d6 else (None, d6))
                   else (None, listen BUTTON_CLICK d5)))"
| "dispose ua L d =
     (if disposed d then (None, d) else disposeInternal ua L (d\<lparr>disposed := True\<rparr>))"
| "disposeInternal ua L d =
     (case (if inDocument d then exitDocument ua L d else (None, d)) of
        (Some e, d1) \<Rightarrow> (Some e, d1)
      | (None, d1) \<Rightarrow> (None, d1\<lparr>listening := {}, hasElement := False, focusHandler := False\<rparr>))"
| "exitDocument ua L d =
     (case (if isVisible d then setVisible ua L False d else (None, d)) of
        (Some e, d1) \<Rightarrow> (Some e, d1)
      | (None, d1) \<Rightarrow> (None, d1\<lparr>listening := {}, inDocument := False\<rparr>))"
  by pat_completeness auto

termination
  apply (relation "measure (\<lambda>x. case x of
       Inl (Inl (ua, L, vis, d)) \<Rightarrow> (if visible d then 4 else 0)
     | Inl (Inr (ua, L, d)) \<Rightarrow> (if visible d then 4 else 0) + 3
     | Inr (Inl (ua, L, d)) \<Rightarrow> (if visible d then 4 else 0) + 2
     | Inr (Inr (ua, L, d)) \<Rightarrow> (if visible d then 4 else 0) + 1)")
      apply (auto simp: Let_def dispatchEvent_def unlisten_def isVisible_def)
  done

declare setVisible.simps [simp del] dispose.simps [simp del]
  disposeInternal.simps [simp del] exitDocument.simps [simp del]

subsection \<open>Dialog: clicks and key presses\<close>

text \<open>
  A browser event as the handlers read it: the key code and the shift flag of a key
  event, the target, and the target's ancestors from its parent upwards (the chain that
  \<open>parentNode\<close> walks).
\<close>

record BrowserEvent =
  keyCode :: nat
  shiftKey :: bool
  target :: element
  ancestors :: "element list"

text \<open>
  The key codes of \<open>goog.events.KeyCodes\<close> that \<open>onKeyDown_\<close> compares with: the DOM's
  codes of the three keys.
\<close>

definition ESC :: nat where "ESC = 27"

definition ENTER :: nat where "ENTER = 13"

definition TAB :: nat where "TAB = 9"

text \<open>
  \<open>findParentButton_\<close>: walk from the clicked element upwards until the chain ends or
  reaches the button bar; the first \<open>BUTTON\<close> met on the way is the result.
\<close>

fun findParentButton :: "node option \<Rightarrow> element list \<Rightarrow> element option" where
  "findParentButton bar [] = None"
| "findParentButton bar (el # up) =
     (if Some (self el) = bar then None
      else if tagName el = ''BUTTON'' then Some el
      else findParentButton bar up)"

definition onButtonClick :: "userAgent \<Rightarrow> (dlg_event \<Rightarrow> bool) \<Rightarrow> BrowserEvent \<Rightarrow> Dialog \<Rightarrow> outcome" where
  "onButtonClick ua L e d =
     (case findParentButton (buttonEl d) (target e # ancestors e) of
        None \<Rightarrow> (None, d)
      | Some button \<Rightarrow>
          if \<not> disabled button
          then (let key = name button
                in case getButtonSet d of
                     None \<Rightarrow> (Some TypeError, d)
                   | Some bs \<Rightarrow>
                       (let caption = Map_get key (entries bs);
                            r = dispatchEvent L (SELECT key caption) d
                        in if fst r then setVisible ua L False (snd r) else (None, snd r)))
          else (None, d))"

definition onTitleCloseClick :: "userAgent \<Rightarrow> (dlg_event \<Rightarrow> bool) \<Rightarrow> Dialog \<Rightarrow> outcome" where
  "onTitleCloseClick ua L d =
     (let key = (case getButtonSet d of None \<Rightarrow> None | Some bs \<Rightarrow> getCancel bs)
      in if truthy key
         then (case getButtonSet d of
                 None \<Rightarrow> (Some TypeError, d)
               | Some bs \<Rightarrow>
                   (let caption = Map_get (keyOf key) (entries bs);
                        r = dispatchEvent L (SELECT (keyOf key) caption) d
                    in if fst r then setVisible ua L False (snd r) else (None, snd r)))
         else setVisible ua L False d)"

text \<open>
  JavaScript's \<open>String(v)\<close> of a caption or of \<open>undefined\<close>.
\<close>

definition js_String :: "caption option \<Rightarrow> string" where
  "js_String v = (case v of None \<Rightarrow> ''undefined'' | Some (Text s) \<Rightarrow> s | Some (Node s) \<Rightarrow> s)"

text \<open>
  The first part of \<open>onKeyDown_\<close>, up to line 1149: what the key does. The result is an
  exception, or the flags \<open>close\<close> and \<open>hasHandler\<close> with the dialog after any event
  dispatched.
\<close>

definition keyAction :: "(dlg_event \<Rightarrow> bool) \<Rightarrow> BrowserEvent \<Rightarrow> Dialog \<Rightarrow> error + (bool \<times> bool \<times> Dialog)" where
  "keyAction L e d =
     (let buttonSet = getButtonSet d
      in if keyCode e = ESC then
           (let cancel = (case buttonSet of None \<Rightarrow> None | Some bs \<Rightarrow> getCancel bs);
                isSpecialFormElement = (tagName (target e) = ''SELECT'' \<and> \<not> disabled (target e))
            in if truthy cancel \<and> \<not> isSpecialFormElement then
                 (case buttonSet of
                    None \<Rightarrow> Inl TypeError
                  | Some bs \<Rightarrow>
                      (let caption = Map_get (keyOf cancel) (entries bs);
                           r = dispatchEvent L (SELECT (keyOf cancel) caption) d
                       in Inr (fst r, True, snd r)))
               else if \<not> isSpecialFormElement then Inr (True, False, d)
               else Inr (False, False, d))
         else if keyCode e = ENTER then
           (case (if tagName (target e) = ''BUTTON'' then Inr (Some (name (target e)))
                  else case buttonSet of
                         None \<Rightarrow> Inr None
                       | Some bs \<Rightarrow>
                           (let defaultKey = getDefault bs
                            in case (if truthy defaultKey then getButton (keyOf defaultKey) bs (doc d)
                                     else Inr None) of
                                 Inl err \<Rightarrow> Inl err
                               | Inr defaultBtn \<Rightarrow>
                                   (let isSpecialFormElement =
                                          ((tagName (target e) = ''TEXTAREA'' \<or> tagName (target e) = ''SELECT'')
                                           \<and> \<not> disabled (target e))
                                    in case defaultBtn of
                                         None \<Rightarrow> Inr None
                                       | Some b \<Rightarrow>
                                           if \<not> disabled b \<and> \<not> isSpecialFormElement
                                           then Inr defaultKey else Inr None))) of
              Inl err \<Rightarrow> Inl err
            | Inr key \<Rightarrow>
                if truthy key then
                  (case buttonSet of
                     None \<Rightarrow> Inl TypeError
                   | Some bs \<Rightarrow>
                       (let r = dispatchEvent L
                                  (SELECT (keyOf key) (Some (Text (js_String (Map_get (keyOf key) (entries bs)))))) d
                        in Inr (fst r, True, snd r)))
                else Inr (False, False, d))
         else if keyCode e = TAB \<and> shiftKey e \<and> Some (self (target e)) = getElement d then
           Inr (False, True, d)
         else Inr (False, False, d))"

text \<open>
  \<open>onKeyDown_\<close>: the key's action, then \<open>stopPropagation\<close> and \<open>preventDefault\<close> if the
  key was handled, then the hiding if the key closes the dialog. The third component of
  the result says whether the browser event was stopped.
\<close>

definition onKeyDown :: "userAgent \<Rightarrow> (dlg_event \<Rightarrow> bool) \<Rightarrow> BrowserEvent \<Rightarrow> Dialog \<Rightarrow> error option \<times> Dialog \<times> bool" where
  "onKeyDown ua L e d =
     (case keyAction L e d of
        Inl err \<Rightarrow> (Some err, d, False)
      | Inr (close, hasHandler, d1) \<Rightarrow>
          (let stopped = (close \<or> hasHandler)
           in if close
              then (let r = setVisible ua L False d1 in (fst r, snd r, stopped))
              else (None, d1, stopped)))"

subsection \<open>Notions used in the statements\<close>

text \<open>
  A call in a run of button-set operations is \<^emph>\<open>well-keyed\<close> when it is a \<open>set\<close>, or a
  \<open>setDefault\<close> or \<open>setCancel\<close> whose argument is \<open>null\<close> or a key the mapping holds at
  that moment.
\<close>

fun op_ok :: "ButtonSet \<Rightarrow> bs_op \<Rightarrow> bool" where
  "op_ok bs (Set key cap isDefault isCancel) = True"
| "op_ok bs (SetDefault key) = (case key of None \<Rightarrow> True | Some k \<Rightarrow> k \<in> set (getKeys (entries bs)))"
| "op_ok bs (SetCancel key) = (case key of None \<Rightarrow> True | Some k \<Rightarrow> k \<in> set (getKeys (entries bs)))"

fun ops_ok :: "ButtonSet \<Rightarrow> bs_op list \<Rightarrow> bool" where
  "ops_ok bs [] = True"
| "ops_ok bs (op # ops) = (op_ok bs op \<and> ops_ok (apply_op bs op) ops)"

text \<open>
  The keys that a run of operations passes to \<open>set\<close>, in call order, and the order in
  which the keys of a list occur for the first time.
\<close>

fun setKeys :: "bs_op list \<Rightarrow> string list" where
  "setKeys [] = []"
| "setKeys (Set key cap isDefault isCancel # ops) = key # setKeys ops"
| "setKeys (op # ops) = setKeys ops"

fun firstInserted :: "string list \<Rightarrow> string list" where
  "firstInserted [] = []"
| "firstInserted (k # ks) = k # removeAll k (firstInserted ks)"

text \<open>
  The dialog after the rendering step of \<open>setVisible\<close> (whether that step completed or
  raised), and the states in which a hiding and a showing that complete leave it, as
  compositions of the steps of \<open>setVisible\<close>.
\<close>

definition rendered :: "Dialog \<Rightarrow> Dialog" where
  "rendered d = (if isInDocument d then d else snd (Dialog_render d))"

definition hidden :: "(dlg_event \<Rightarrow> bool) \<Rightarrow> Dialog \<Rightarrow> Dialog" where
  "hidden L d = snd (dispatchEvent L AFTER_HIDE (unlisten BUTTON_CLICK
      ((unlisten RESIZE (unlisten KEYDOWN (rendered d)))\<lparr>shown := False, visible := False\<rparr>)))"

definition shownState :: "userAgent \<Rightarrow> Dialog \<Rightarrow> Dialog" where
  "shownState ua d = listen BUTTON_CLICK
      ((focusDefaultButton ua ((listen RESIZE (listen KEYDOWN (rendered d)))\<lparr>shown := True\<rparr>))\<lparr>visible := True\<rparr>)"

text \<open>Concrete inputs for the examples.\<close>

definition firefox :: userAgent where
  "firefox = \<lparr>GECKO = True, WEBKIT = False, OPERA = False\<rparr>"

definition safari :: userAgent where
  "safari = \<lparr>GECKO = False, WEBKIT = True, OPERA = False\<rparr>"

definition msie :: userAgent where
  "msie = \<lparr>GECKO = False, WEBKIT = False, OPERA = False\<rparr>"

definition accept_all :: "dlg_event \<Rightarrow> bool" where
  "accept_all ev = True"

definition cancel_all :: "dlg_event \<Rightarrow> bool" where
  "cancel_all ev = False"

definition empty_document :: document where
  "empty_document n = []"

text \<open>
  A dialog fresh from the constructor, while some element of the page has the focus; the
  same dialog after \<open>setVisible(true)\<close>; and dialogs shown with other button sets: the
  predefined OK set (no cancel key), a set whose cancel key is the empty string, and no
  button set at all.
\<close>

definition fresh_dialog :: Dialog where
  "fresh_dialog = Dialog_new empty_document (Other 7)"

definition shown_dialog :: "userAgent \<Rightarrow> Dialog" where
  "shown_dialog ua = snd (setVisible ua accept_all True fresh_dialog)"

definition ok_only_dialog :: Dialog where
  "ok_only_dialog =
     snd (setVisible firefox accept_all True (setButtonSet (Some ButtonSet_OK) fresh_dialog))"

definition blank_cancel_dialog :: Dialog where
  "blank_cancel_dialog =
     snd (setVisible firefox accept_all True
       (setButtonSet (Some (ButtonSet_set [] (Text ''Close'') False True ButtonSet_new)) fresh_dialog))"

definition bare_dialog :: Dialog where
  "bare_dialog = setButtonSet None fresh_dialog"

text \<open>
  A dialog that was shown, told to dispose itself on hiding, and hidden: it is disposed.
\<close>

definition disposed_dialog :: Dialog where
  "disposed_dialog =
     snd (setVisible firefox accept_all False (setDisposeOnHide True (shown_dialog firefox)))"

text \<open>
  Elements that events can name: the dialog element, the button bar, the rendered OK
  button, and three controls inside the content area (an enabled \<open>select\<close>, and a
  \<open>button\<close> without a name).
\<close>

definition div_el :: element where
  "div_el = \<lparr>tagName = ''DIV'', name = [], ident = [], disabled = False,
      className = ''modal-dialog'', content = None, self = Root\<rparr>"

definition bar_el :: element where
  "bar_el = \<lparr>tagName = ''DIV'', name = [], ident = [], disabled = False,
      className = ''modal-dialog-buttons'', content = None, self = ButtonBar\<rparr>"

definition ok_button :: element where
  "ok_button = (createButton ''ok'' (Text ''OK'') (Child ButtonBar 0))\<lparr>className := defaultClass\<rparr>"

definition select_el :: element where
  "select_el = \<lparr>tagName = ''SELECT'', name = ''lang'', ident = [], disabled = False,
      className = [], content = None, self = Other 1\<rparr>"

definition plain_button :: element where
  "plain_button = \<lparr>tagName = ''BUTTON'', name = [], ident = [], disabled = False,
      className = [], content = Some (Text ''Browse''), self = Other 2\<rparr>"

definition keydown :: "nat \<Rightarrow> element \<Rightarrow> BrowserEvent" where
  "keydown k t = \<lparr>keyCode = k, shiftKey = False, target = t, ancestors = []\<rparr>"

definition click :: "element \<Rightarrow> element list \<Rightarrow> BrowserEvent" where
  "click t up = \<lparr>keyCode = 0, shiftKey = False, target = t, ancestors = up\<rparr>"

definition yes_no_cancel_ops :: "bs_op list" where
  "yes_no_cancel_ops =
     [Set ''yes'' (Text ''Yes'') False False, Set ''no'' (Text ''No'') True False,
      Set ''cancel'' (Text ''Cancel'') False True, Set ''yes'' (Text ''Yes!'') False False]"

section \<open>The button set\<close>

subsection \<open>The mapping\<close>

lemma getKeys_Map_set:
  "getKeys (Map_set k v m) = (if k \<in> set (getKeys m) then getKeys m else getKeys m @ [k])"
  by (induction m) (auto simp: getKeys_def)

lemma Map_get_Map_set: "(\<lambda>k'. Map_get k' (Map_set k v m)) = (\<lambda>k'. Map_get k' m)(k \<mapsto> v)"
proof
  fix k'
  show "Map_get k' (Map_set k v m) = ((\<lambda>k'. Map_get k' m)(k \<mapsto> v)) k'"
    by (induction m) (auto simp: Map_get_def)
qed

text \<open>
  Claim C10. Calling \<open>set(key, caption)\<close> with both flags absent or false leaves the
  default key, the cancel key and the container as they were, also when \<open>key\<close> is the
  default or the cancel key, and changes the mapping at \<open>key\<close> only: the lookup function
  afterwards is the one before, updated at \<open>key\<close>, and the key order is kept, a new key
  going to the end.
\<close>

theorem set_without_flags_frame:
  "getDefault (ButtonSet_set key cap False False bs) = getDefault bs \<and>
   getCancel (ButtonSet_set key cap False False bs) = getCancel bs \<and>
   bs_element (ButtonSet_set key cap False False bs) = bs_element bs \<and>
   (\<lambda>k. Map_get k (entries (ButtonSet_set key cap False False bs)))
     = (\<lambda>k. Map_get k (entries bs))(key \<mapsto> cap) \<and>
   getKeys (entries (ButtonSet_set key cap False False bs)) =
     (if key \<in> set (getKeys (entries bs)) then getKeys (entries bs)
      else getKeys (entries bs) @ [key])"
  by (simp add: ButtonSet_set_def getDefault_def getCancel_def Map_get_Map_set getKeys_Map_set)

text \<open>
  An instance of C10 on the predefined OK/Cancel set: giving the default key \<open>ok\<close> a new
  caption keeps \<open>ok\<close> the default and \<open>cancel\<close> the cancel key.
\<close>

theorem set_without_flags_frame_witness:
  "getDefault (ButtonSet_set ''ok'' (Text ''Fine'') False False ButtonSet_OK_CANCEL) = Some ''ok'' \<and>
   getCancel (ButtonSet_set ''ok'' (Text ''Fine'') False False ButtonSet_OK_CANCEL) = Some ''cancel'' \<and>
   getKeys (entries (ButtonSet_set ''ok'' (Text ''Fine'') False False ButtonSet_OK_CANCEL)) = [''ok'', ''cancel'']"
  using set_without_flags_frame [of "''ok''" "Text ''Fine''" ButtonSet_OK_CANCEL]
  by (simp add: ButtonSet_OK_CANCEL_def ButtonSet_set_def ButtonSet_new_def getDefault_def
      getCancel_def getKeys_def)

subsection \<open>Default and cancel keys\<close>

lemma keys_registered_set: "keys_registered bs \<Longrightarrow> keys_registered (ButtonSet_set k c isD isC bs)"
  by (auto simp: keys_registered_def ButtonSet_set_def Let_def getKeys_Map_set split: option.splits)

lemma keys_registered_op: "keys_registered bs \<Longrightarrow> op_ok bs op \<Longrightarrow> keys_registered (apply_op bs op)"
  by (cases op)
     (auto simp: keys_registered_set,
      auto simp: keys_registered_def setDefault_def setCancel_def split: option.splits)

text \<open>
  Claim C5, as stated, fails: \<open>setDefault\<close> and \<open>setCancel\<close> store their argument
  without looking at the mapping. On the empty button set, which satisfies the invariant,
  \<open>setDefault('save')\<close> leaves a default key that is not a key of the mapping.
\<close>

theorem setDefault_unregistered_counterexample:
  "keys_registered ButtonSet_new \<and>
   \<not> keys_registered (apply_ops ButtonSet_new [SetDefault (Some ''save'')])"
  by (simp add: keys_registered_def ButtonSet_new_def apply_ops_def setDefault_def getKeys_def)

text \<open>
  Claim C5, amended. \<open>set\<close> keeps the invariant whatever its flags; \<open>setDefault\<close> and
  \<open>setCancel\<close> keep it when their argument is \<open>null\<close> or a key of the mapping. So the
  invariant holds after every run of well-keyed calls that starts in a button set
  satisfying it.
\<close>

theorem keys_registered_preserved:
  "keys_registered bs \<Longrightarrow> ops_ok bs ops \<Longrightarrow> keys_registered (apply_ops bs ops)"
  unfolding apply_ops_def
  by (induction ops arbitrary: bs) (auto simp: keys_registered_op)

theorem keys_registered_preserved_witness:
  "keys_registered ButtonSet_new \<and>
   ops_ok ButtonSet_new [Set ''save'' (Text ''Save'') True False, SetCancel (Some ''save''), SetDefault None] \<and>
   keys_registered (apply_ops ButtonSet_new
     [Set ''save'' (Text ''Save'') True False, SetCancel (Some ''save''), SetDefault None])"
proof -
  have a: "keys_registered ButtonSet_new"
    by (simp add: keys_registered_def ButtonSet_new_def)
  have b: "ops_ok ButtonSet_new
      [Set ''save'' (Text ''Save'') True False, SetCancel (Some ''save''), SetDefault None]"
    by (simp add: ButtonSet_new_def ButtonSet_set_def setCancel_def getKeys_def)
  from keys_registered_preserved [OF a b] a b show ?thesis by simp
qed

subsection \<open>Rendering\<close>

lemma keys_apply_ops:
  "getKeys (entries (foldl apply_op bs ops)) =
     getKeys (entries bs) @ filter (\<lambda>k. k \<notin> set (getKeys (entries bs))) (firstInserted (setKeys ops))"
proof (induction ops arbitrary: bs)
  case Nil
  then show ?case by simp
next
  case (Cons op ops)
  show ?case
  proof (cases op)
    case (Set key cap isD isC)
    then show ?thesis
      using Cons.IH [of "apply_op bs op"]
      by (auto simp: ButtonSet_set_def Let_def getKeys_Map_set removeAll_filter_not_eq intro: filter_cong)
  next
    case (SetDefault k)
    then show ?thesis using Cons.IH [of "apply_op bs op"] by (simp add: setDefault_def)
  next
    case (SetCancel k)
    then show ?thesis using Cons.IH [of "apply_op bs op"] by (simp add: setCancel_def)
  qed
qed

lemma distinct_firstInserted: "distinct (firstInserted ks)"
  by (induction ks) (auto simp: distinct_removeAll)

lemma apply_op_element: "bs_element (apply_op bs op) = bs_element bs"
  by (cases op) (auto simp: ButtonSet_set_def Let_def setDefault_def setCancel_def)

lemma apply_ops_element: "bs_element (foldl apply_op bs ops) = bs_element bs"
  by (induction ops arbitrary: bs) (auto simp: apply_op_element)

lemma render_names:
  "map name (foldl (renderEntry bs el) dc es el) = map name (dc el) @ map fst es"
  by (induction es arbitrary: dc) (auto simp: renderEntry_def Let_def createButton_def)

lemma render_marks:
  "\<forall>b \<in> set (dc el). tagName b = ''BUTTON'' \<and> (className b = defaultClass \<longleftrightarrow> Some (name b) = defaultButton bs)
   \<Longrightarrow> \<forall>b \<in> set (foldl (renderEntry bs el) dc es el).
         tagName b = ''BUTTON'' \<and> (className b = defaultClass \<longleftrightarrow> Some (name b) = defaultButton bs)"
proof (induction es arbitrary: dc)
  case Nil
  then show ?case by simp
next
  case (Cons e es)
  have "\<forall>b \<in> set (renderEntry bs el dc e el).
          tagName b = ''BUTTON'' \<and> (className b = defaultClass \<longleftrightarrow> Some (name b) = defaultButton bs)"
    using Cons.prems by (auto simp: renderEntry_def Let_def createButton_def defaultClass_def)
  from Cons.IH [of "renderEntry bs el dc e", OF this] show ?case by simp
qed

text \<open>
  Claim C6. Take a button set with container \<open>el\<close>, built from the empty set by any run
  of \<open>set\<close>, \<open>setDefault\<close> and \<open>setCancel\<close> calls, whatever flags the \<open>set\<close> calls carry.
  \<open>render\<close> leaves in the container one button per key of the mapping, named by the keys
  in the order in which \<open>set\<close> first inserted them, no name twice; every one is a
  \<open>BUTTON\<close>, and a button carries the default class name exactly when its name is the
  default key.
\<close>

theorem render_insertion_order:
  "(let bs = apply_ops (ButtonSet_new\<lparr>bs_element := Some el\<rparr>) ops;
        out = ButtonSet_render bs dc el
    in map name out = getKeys (entries bs) \<and>
       getKeys (entries bs) = firstInserted (setKeys ops) \<and>
       distinct (map name out) \<and>
       (\<forall>b \<in> set out. tagName b = ''BUTTON'' \<and>
           (className b = defaultClass \<longleftrightarrow> Some (name b) = getDefault bs)))"
proof -
  define bs where "bs = apply_ops (ButtonSet_new\<lparr>bs_element := Some el\<rparr>) ops"
  define out where "out = ButtonSet_render bs dc el"
  have el: "bs_element bs = Some el"
    by (simp add: bs_def apply_ops_def apply_ops_element)
  have out: "out = foldl (renderEntry bs el) (dc(el := [])) (entries bs) el"
    by (simp add: out_def ButtonSet_render_def el)
  have names: "map name out = getKeys (entries bs)"
    by (simp add: out render_names getKeys_def)
  have keys: "getKeys (entries bs) = firstInserted (setKeys ops)"
    by (simp add: bs_def apply_ops_def keys_apply_ops) (simp add: ButtonSet_new_def getKeys_def)
  have dist: "distinct (map name out)"
    by (simp add: names keys distinct_firstInserted)
  have marks: "\<forall>b \<in> set out. tagName b = ''BUTTON'' \<and>
           (className b = defaultClass \<longleftrightarrow> Some (name b) = getDefault bs)"
    unfolding out getDefault_def by (rule render_marks) simp
  show ?thesis
    using names keys dist marks by (simp add: Let_def bs_def [symmetric] out_def [symmetric])
qed

lemma yes_no_cancel_names:
  "map name (ButtonSet_render (apply_ops (ButtonSet_new\<lparr>bs_element := Some ButtonBar\<rparr>) yes_no_cancel_ops)
      empty_document ButtonBar) = [''yes'', ''no'', ''cancel'']"
  by code_simp

lemma yes_no_cancel_classes:
  "map className (ButtonSet_render (apply_ops (ButtonSet_new\<lparr>bs_element := Some ButtonBar\<rparr>) yes_no_cancel_ops)
      empty_document ButtonBar) = [[], defaultClass, []]"
  by code_simp

text \<open>
  An instance of C6: \<open>yes\<close>, \<open>no\<close> (default), \<open>cancel\<close> (cancel), then \<open>yes\<close> again with
  a new caption. Three buttons come out, \<open>yes\<close> still first, and \<open>no\<close> alone is marked.
\<close>

theorem render_insertion_order_witness:
  "map name (ButtonSet_render (apply_ops (ButtonSet_new\<lparr>bs_element := Some ButtonBar\<rparr>) yes_no_cancel_ops)
      empty_document ButtonBar) = [''yes'', ''no'', ''cancel''] \<and>
   map className (ButtonSet_render (apply_ops (ButtonSet_new\<lparr>bs_element := Some ButtonBar\<rparr>) yes_no_cancel_ops)
      empty_document ButtonBar) = [[], defaultClass, []] \<and>
   firstInserted (setKeys yes_no_cancel_ops) = [''yes'', ''no'', ''cancel''] \<and>
   getDefault (apply_ops (ButtonSet_new\<lparr>bs_element := Some ButtonBar\<rparr>) yes_no_cancel_ops) = Some ''no''"
proof -
  have d: "getDefault (apply_ops (ButtonSet_new\<lparr>bs_element := Some ButtonBar\<rparr>) yes_no_cancel_ops) = Some ''no''"
    by code_simp
  from render_insertion_order [of ButtonBar yes_no_cancel_ops empty_document]
    yes_no_cancel_names yes_no_cancel_classes d
  show ?thesis by (simp add: Let_def)
qed

section \<open>The dialog\<close>

subsection \<open>Showing and hiding\<close>

lemma setVisible_same: "visible d = vis \<Longrightarrow> setVisible ua L vis d = (None, d)"
  by (simp add: setVisible.simps)

lemma exitDocument_hidden:
  "\<not> visible d \<Longrightarrow> exitDocument ua L d = (None, d\<lparr>listening := {}, inDocument := False\<rparr>)"
  by (simp add: exitDocument.simps isVisible_def)

lemma dispose_hidden:
  "\<not> visible d \<Longrightarrow> dispose ua L d =
     (None, if disposed d then d
            else d\<lparr>disposed := True, listening := {}, inDocument := False, hasElement := False,
                   focusHandler := False\<rparr>)"
  by (simp add: dispose.simps disposeInternal.simps exitDocument_hidden)

lemma rendered_fields [simp]:
  "visible (rendered d) = visible d" "disposeOnHide (rendered d) = disposeOnHide d"
  "disposed (rendered d) = disposed d" "dispatched (rendered d) = dispatched d"
  "inDocument (rendered d)" "activeElement (rendered d) = activeElement d"
  "focusHandler (rendered d) = focusHandler d"
  by (auto simp: rendered_def isInDocument_def Dialog_render_def enterDocument_def listen_def
      createDom_def Let_def split: option.splits)

lemma rendered_inDocument [simp]: "inDocument d \<Longrightarrow> rendered d = d"
  by (simp add: rendered_def isInDocument_def)

lemma hidden_fields [simp]:
  "visible (hidden L d) = False" "disposeOnHide (hidden L d) = disposeOnHide d"
  "disposed (hidden L d) = disposed d" "dispatched (hidden L d) = dispatched d @ [AFTER_HIDE]"
  "listening (hidden L d) = listening (rendered d) - {KEYDOWN, RESIZE, BUTTON_CLICK}"
  "inDocument (hidden L d)" "shown (hidden L d) = False"
  "activeElement (hidden L d) = activeElement d"
  by (auto simp: hidden_def dispatchEvent_def unlisten_def)

lemma hidden_indep: "hidden L d = hidden L' d"
  by (simp add: hidden_def dispatchEvent_def)

text \<open>
  The rendering step of \<open>setVisible\<close> raises exactly when it has to render a dialog
  whose focus handler is gone.
\<close>

lemma ensure_rendered:
  "(if \<not> isInDocument d then Dialog_render d else (None, d)) =
     (if isInDocument d \<or> focusHandler d then None else Some TypeError, rendered d)"
  by (auto simp: rendered_def isInDocument_def Dialog_render_def enterDocument_def listen_def
      createDom_def getElement_def Let_def split: option.splits)

lemma render_detached:
  "\<not> isInDocument d \<Longrightarrow>
   Dialog_render d = (if focusHandler d then None else Some TypeError, rendered d)"
  using ensure_rendered [of d] by simp

lemma setVisible_raises:
  "vis \<noteq> visible d \<Longrightarrow> \<not> isInDocument d \<Longrightarrow> \<not> focusHandler d \<Longrightarrow>
   setVisible ua L vis d = (Some TypeError, rendered d)"
  by (subst setVisible.simps) (simp add: render_detached)

lemma setVisible_hide:
  "visible d \<Longrightarrow> isInDocument d \<or> focusHandler d \<Longrightarrow> setVisible ua L False d =
     (if disposeOnHide d then dispose ua L (hidden L d) else (None, hidden L d))"
proof -
  assume v: "visible d" and r: "isInDocument d \<or> focusHandler d"
  have "setVisible ua L False d =
      (if disposeOnHide (hidden L d) then dispose ua L (hidden L d) else (None, hidden L d))"
    using v r by (subst setVisible.simps) (simp add: ensure_rendered Let_def hidden_def)
  then show ?thesis by simp
qed

lemma setVisible_show:
  "\<not> visible d \<Longrightarrow> isInDocument d \<or> focusHandler d \<Longrightarrow>
   setVisible ua L True d = (None, shownState ua d)"
  by (subst setVisible.simps) (simp add: ensure_rendered Let_def shownState_def)

lemma hide_result:
  "visible d \<Longrightarrow> isInDocument d \<or> focusHandler d \<Longrightarrow> setVisible ua L False d =
     (None, if disposeOnHide d \<and> \<not> disposed d
            then (hidden L d)\<lparr>disposed := True, listening := {}, inDocument := False,
                   hasElement := False, focusHandler := False\<rparr>
            else hidden L d)"
  by (simp add: setVisible_hide dispose_hidden)

lemma focusDefaultButton_fields [simp]:
  "visible (focusDefaultButton ua d) = visible d"
  "listening (focusDefaultButton ua d) = listening d"
  "dispatched (focusDefaultButton ua d) = dispatched d"
  "doc (focusDefaultButton ua d) = doc d"
  "buttons (focusDefaultButton ua d) = buttons d"
  "disposeOnHide (focusDefaultButton ua d) = disposeOnHide d"
  "disposed (focusDefaultButton ua d) = disposed d"
  "inDocument (focusDefaultButton ua d) = inDocument d"
  "hasElement (focusDefaultButton ua d) = hasElement d"
  "focusHandler (focusDefaultButton ua d) = focusHandler d"
  "shown (focusDefaultButton ua d) = shown d"
  by (auto simp: focusDefaultButton_def getButtonSet_def focus_def Let_def split: option.splits)

lemma shownState_fields [simp]:
  "visible (shownState ua d)" "dispatched (shownState ua d) = dispatched d"
  "disposeOnHide (shownState ua d) = disposeOnHide d" "disposed (shownState ua d) = disposed d"
  "inDocument (shownState ua d)" "shown (shownState ua d)"
  "listening (shownState ua d) = insert BUTTON_CLICK (insert RESIZE (insert KEYDOWN (listening (rendered d))))"
  "doc (shownState ua d) = doc (rendered d)" "buttons (shownState ua d) = buttons (rendered d)"
  by (auto simp: shownState_def listen_def)

lemma setVisible_cases:
  "setVisible ua L vis d =
     (if vis = visible d then (None, d)
      else if \<not> isInDocument d \<and> \<not> focusHandler d then (Some TypeError, rendered d)
      else if vis then (None, shownState ua d)
      else (None, if disposeOnHide d \<and> \<not> disposed d
                  then (hidden L d)\<lparr>disposed := True, listening := {}, inDocument := False,
                         hasElement := False, focusHandler := False\<rparr>
                  else hidden L d))"
  by (cases vis) (auto simp: setVisible_same setVisible_raises setVisible_show hide_result)

lemma visible_after_setVisible:
  "fst (setVisible ua L vis d) = None \<Longrightarrow> visible (snd (setVisible ua L vis d)) = vis"
  by (auto simp: setVisible_cases split: if_splits)

subsection \<open>A visible dialog is in the document\<close>

text \<open>
  No operation leaves a dialog visible and outside the document: \<open>setVisible\<close> renders
  before it shows, and \<open>exitDocument\<close> hides before it leaves. The constructor's dialog
  satisfies this, and every operation keeps it, whether it returns or raises. So the
  condition "in the document, or with its focus handler" under which the statements
  about hiding are made holds of every visible dialog the operations produce.
\<close>

lemma visible_in_document_setVisible:
  "visible d \<longrightarrow> inDocument d \<Longrightarrow>
   visible (snd (setVisible ua L vis d)) \<longrightarrow> inDocument (snd (setVisible ua L vis d))"
  by (auto simp: setVisible_cases split: if_splits)

lemma visible_in_document_dispose:
  "visible d \<longrightarrow> inDocument d \<Longrightarrow>
   visible (snd (dispose ua L d)) \<longrightarrow> inDocument (snd (dispose ua L d))"
  by (auto simp: dispose.simps disposeInternal.simps exitDocument.simps isVisible_def
      setVisible_cases isInDocument_def split: if_splits)

lemma visible_in_document_exitDocument:
  "visible d \<longrightarrow> inDocument d \<Longrightarrow> \<not> visible (snd (exitDocument ua L d))"
  by (auto simp: exitDocument.simps isVisible_def setVisible_cases isInDocument_def split: if_splits)

lemma visible_in_document_render:
  "visible d \<longrightarrow> inDocument d \<Longrightarrow>
   visible (snd (Dialog_render d)) \<longrightarrow> inDocument (snd (Dialog_render d))"
  using rendered_fields(1,5) [of d]
  by (auto simp: rendered_def isInDocument_def Dialog_render_def split: if_splits)

lemma visible_in_document_handlers:
  assumes "visible d \<longrightarrow> inDocument d"
  shows "visible (snd (onButtonClick ua L e d)) \<longrightarrow> inDocument (snd (onButtonClick ua L e d))"
    and "visible (snd (onTitleCloseClick ua L d)) \<longrightarrow> inDocument (snd (onTitleCloseClick ua L d))"
    and "visible (fst (snd (onKeyDown ua L e d))) \<longrightarrow> inDocument (fst (snd (onKeyDown ua L e d)))"
proof -
  have sv: "\<And>x. visible x \<longrightarrow> inDocument x \<Longrightarrow>
      visible (snd (setVisible ua L False x)) \<longrightarrow> inDocument (snd (setVisible ua L False x))"
    by (rule visible_in_document_setVisible)
  show "visible (snd (onButtonClick ua L e d)) \<longrightarrow> inDocument (snd (onButtonClick ua L e d))"
    using assms sv [of "d\<lparr>dispatched := dispatched d @ [ev]\<rparr>" for ev]
    by (auto simp: onButtonClick_def Let_def dispatchEvent_def split: option.splits)
  show "visible (snd (onTitleCloseClick ua L d)) \<longrightarrow> inDocument (snd (onTitleCloseClick ua L d))"
    using assms sv [of d] sv [of "d\<lparr>dispatched := dispatched d @ [ev]\<rparr>" for ev]
    by (auto simp: onTitleCloseClick_def Let_def dispatchEvent_def split: option.splits)
  have ka: "\<And>c h d1. keyAction L e d = Inr (c, h, d1) \<Longrightarrow> visible d1 \<longrightarrow> inDocument d1"
    using assms
    by (auto simp: keyAction_def Let_def dispatchEvent_def split: option.splits if_splits sum.splits)
  show "visible (fst (snd (onKeyDown ua L e d))) \<longrightarrow> inDocument (fst (snd (onKeyDown ua L e d)))"
    using assms ka sv
    by (auto simp: onKeyDown_def Let_def split: sum.splits prod.splits)
qed

lemma visible_in_document_new: "visible (Dialog_new dc n) \<longrightarrow> inDocument (Dialog_new dc n)"
  by (simp add: Dialog_new_def)

lemma shown_dialog_visible: "visible (shown_dialog firefox) = True"
  by code_simp

lemma shown_dialog_inDocument: "isInDocument (shown_dialog firefox)"
  by code_simp

lemma shown_dialog_ready: "isInDocument (shown_dialog firefox) \<or> focusHandler (shown_dialog firefox)"
  using shown_dialog_inDocument by simp

subsection \<open>Calling \<open>setVisible\<close> again\<close>

lemma show_disposed_dialog:
  "\<not> visible disposed_dialog" "disposed disposed_dialog"
  "fst (setVisible firefox accept_all True disposed_dialog) = Some TypeError"
  "\<not> visible (snd (setVisible firefox accept_all True disposed_dialog))"
  "fst (setVisible firefox accept_all True (snd (setVisible firefox accept_all True disposed_dialog))) = None"
  "visible (snd (setVisible firefox accept_all True (snd (setVisible firefox accept_all True disposed_dialog))))"
  by code_simp+

text \<open>
  Claim C9, as stated, fails in its conclusion: \<open>setVisible(v)\<close> is not idempotent on
  every dialog. On a disposed dialog the first \<open>setVisible(true)\<close> raises a TypeError
  while rendering (the focus handler is gone), after the component was marked as in the
  document and with the dialog still not visible; a second \<open>setVisible(true)\<close> then finds
  the dialog in the document, skips the rendering and shows it.
\<close>

theorem setVisible_twice_counterexample:
  "disposed disposed_dialog \<and> \<not> visible disposed_dialog \<and>
   fst (setVisible firefox accept_all True disposed_dialog) = Some TypeError \<and>
   \<not> visible (snd (setVisible firefox accept_all True disposed_dialog)) \<and>
   fst (setVisible firefox accept_all True (snd (setVisible firefox accept_all True disposed_dialog))) = None \<and>
   visible (snd (setVisible firefox accept_all True (snd (setVisible firefox accept_all True disposed_dialog)))) \<and>
   setVisible firefox accept_all True (snd (setVisible firefox accept_all True disposed_dialog))
     \<noteq> setVisible firefox accept_all True disposed_dialog"
proof -
  have "setVisible firefox accept_all True (snd (setVisible firefox accept_all True disposed_dialog))
     \<noteq> setVisible firefox accept_all True disposed_dialog"
  proof
    assume "setVisible firefox accept_all True (snd (setVisible firefox accept_all True disposed_dialog))
      = setVisible firefox accept_all True disposed_dialog"
    then have "fst (setVisible firefox accept_all True (snd (setVisible firefox accept_all True disposed_dialog)))
      = fst (setVisible firefox accept_all True disposed_dialog)"
      by simp
    then show False
      by (simp add: show_disposed_dialog)
  qed
  then show ?thesis
    using show_disposed_dialog by blast
qed

text \<open>
  Claim C9, amended. \<open>setVisible(v)\<close> on a dialog whose visible state is already \<open>v\<close>
  returns at once: no exception, and the whole state (fields, listeners, events
  dispatched, document, focus) is the state before. A call of \<open>setVisible(v)\<close> that
  returns leaves the visible state equal to \<open>v\<close>, so calling it again changes nothing:
  \<open>setVisible(v)\<close> is idempotent wherever it returns.
\<close>

theorem setVisible_same_noop:
  "(visible d = vis \<longrightarrow> setVisible ua L vis d = (None, d)) \<and>
   (fst (setVisible ua L vis d) = None \<longrightarrow>
      visible (snd (setVisible ua L vis d)) = vis \<and>
      setVisible ua L vis (snd (setVisible ua L vis d)) = setVisible ua L vis d)"
proof -
  have "setVisible ua L vis (snd (setVisible ua L vis d)) = setVisible ua L vis d"
    if c: "fst (setVisible ua L vis d) = None"
  proof -
    have "setVisible ua L vis (snd (setVisible ua L vis d)) = (None, snd (setVisible ua L vis d))"
      by (rule setVisible_same) (rule visible_after_setVisible [OF c])
    also have "\<dots> = setVisible ua L vis d"
      using c by (cases "setVisible ua L vis d") simp
    finally show ?thesis .
  qed
  then show ?thesis
    by (simp add: setVisible_same visible_after_setVisible)
qed

lemma show_fresh_completes: "fst (setVisible firefox accept_all True fresh_dialog) = None"
  by code_simp

theorem setVisible_same_noop_witness:
  "visible (shown_dialog firefox) = True \<and>
   setVisible firefox cancel_all True (shown_dialog firefox) = (None, shown_dialog firefox) \<and>
   fst (setVisible firefox accept_all True fresh_dialog) = None \<and>
   visible (snd (setVisible firefox accept_all True fresh_dialog)) = True \<and>
   setVisible firefox accept_all True (snd (setVisible firefox accept_all True fresh_dialog))
     = setVisible firefox accept_all True fresh_dialog"
  using setVisible_same_noop [where d = "shown_dialog firefox" and vis = True and ua = firefox and L = cancel_all]
    setVisible_same_noop [where d = fresh_dialog and vis = True and ua = firefox and L = accept_all]
    shown_dialog_visible show_fresh_completes
  by simp

subsection \<open>Rendering twice\<close>

text \<open>
  Claim C8. \<open>render\<close> on a dialog that is in the document raises \<open>ALREADY_RENDERED\<close>,
  \<open>renderBefore\<close> raises \<open>NOT_SUPPORTED\<close> whatever the sibling, and in both cases the
  state at the exception is the state before the call.
\<close>

theorem render_errors:
  "(isInDocument d \<longrightarrow> Dialog_render d = (Some ALREADY_RENDERED, d)) \<and>
   renderBefore sibling d = (Some NOT_SUPPORTED, d)"
  by (simp add: Dialog_render_def renderBefore_def)

theorem render_errors_witness:
  "isInDocument (shown_dialog firefox) \<and>
   Dialog_render (shown_dialog firefox) = (Some ALREADY_RENDERED, shown_dialog firefox) \<and>
   renderBefore (Other 3) (shown_dialog firefox) = (Some NOT_SUPPORTED, shown_dialog firefox)"
  using render_errors [where d = "shown_dialog firefox" and sibling = "Other 3"] shown_dialog_inDocument
  by simp

subsection \<open>Hiding\<close>

text \<open>
  Claim C4. Hiding a visible dialog (\<open>setVisible(false)\<close>, which the close box, a button
  click and the escape key all end in) completes without exception and leaves the dialog
  not visible; the keydown and the resize listener are no longer attached; exactly one
  event, \<open>AFTER_HIDE\<close>, is dispatched, and whatever its listeners answer the outcome is
  the same (it cannot be canceled); \<open>dispose\<close> is called on the hidden dialog, after
  that event, when \<open>disposeOnHide\<close> is set and not otherwise, so a dialog that was not
  disposed before is disposed afterwards exactly when \<open>disposeOnHide\<close> is set. The
  visible dialog is one that is in the document or has its focus handler, as every
  visible dialog the operations produce is and has.
\<close>

theorem hide_detaches:
  assumes "visible d" and "isInDocument d \<or> focusHandler d"
  shows "setVisible ua L False d =
           (if disposeOnHide d then dispose ua L (hidden L d) else (None, hidden L d)) \<and>
         fst (setVisible ua L False d) = None \<and>
         \<not> visible (snd (setVisible ua L False d)) \<and>
         KEYDOWN \<notin> listening (snd (setVisible ua L False d)) \<and>
         RESIZE \<notin> listening (snd (setVisible ua L False d)) \<and>
         dispatched (snd (setVisible ua L False d)) = dispatched d @ [AFTER_HIDE] \<and>
         setVisible ua L False d = setVisible ua L' False d \<and>
         (\<not> disposed d \<longrightarrow> (disposed (snd (setVisible ua L False d)) \<longleftrightarrow> disposeOnHide d))"
proof -
  have "setVisible ua L False d = setVisible ua L' False d"
    using assms by (simp add: hide_result hidden_indep [of L d L'])
  then show ?thesis
    using assms setVisible_hide [OF assms, of ua L] by (simp add: hide_result)
qed

lemma hide_shown_dialog:
  "\<not> disposed (shown_dialog firefox)"
  "dispatched (snd (setVisible firefox cancel_all False (shown_dialog firefox))) = [AFTER_HIDE]"
  "listening (shown_dialog firefox) = {KEYDOWN, RESIZE, BUTTON_CLICK, TITLE_CLOSE_CLICK, FOCUSIN}"
  "listening (snd (setVisible firefox cancel_all False (shown_dialog firefox))) = {TITLE_CLOSE_CLICK, FOCUSIN}"
  "visible (setDisposeOnHide True (shown_dialog firefox))"
  "\<not> disposed (setDisposeOnHide True (shown_dialog firefox))"
  "disposeOnHide (setDisposeOnHide True (shown_dialog firefox))"
  "\<not> disposeOnHide (shown_dialog firefox)"
  "isInDocument (setDisposeOnHide True (shown_dialog firefox))"
  by code_simp+

theorem hide_detaches_witness:
  "visible (shown_dialog firefox) \<and> isInDocument (shown_dialog firefox) \<and>
   \<not> disposed (shown_dialog firefox) \<and>
   listening (shown_dialog firefox) = {KEYDOWN, RESIZE, BUTTON_CLICK, TITLE_CLOSE_CLICK, FOCUSIN} \<and>
   listening (snd (setVisible firefox cancel_all False (shown_dialog firefox))) = {TITLE_CLOSE_CLICK, FOCUSIN} \<and>
   dispatched (snd (setVisible firefox cancel_all False (shown_dialog firefox))) = [AFTER_HIDE] \<and>
   \<not> disposed (snd (setVisible firefox cancel_all False (shown_dialog firefox))) \<and>
   visible (setDisposeOnHide True (shown_dialog firefox)) \<and>
   disposed (snd (setVisible firefox cancel_all False (setDisposeOnHide True (shown_dialog firefox))))"
proof -
  have v: "visible (shown_dialog firefox)"
    using shown_dialog_visible by simp
  have r: "isInDocument (setDisposeOnHide True (shown_dialog firefox))
      \<or> focusHandler (setDisposeOnHide True (shown_dialog firefox))"
    using hide_shown_dialog(9) by simp
  have d1: "\<not> disposed (snd (setVisible firefox cancel_all False (shown_dialog firefox)))"
    using hide_detaches [OF v shown_dialog_ready, where ua = firefox and L = cancel_all and L' = accept_all]
      hide_shown_dialog(1,8) by blast
  have d2: "disposed (snd (setVisible firefox cancel_all False (setDisposeOnHide True (shown_dialog firefox))))"
    using hide_detaches [OF hide_shown_dialog(5) r, where ua = firefox and L = cancel_all and L' = accept_all]
      hide_shown_dialog(6,7) by blast
  show ?thesis
    using v d1 d2 hide_shown_dialog(1-5) shown_dialog_inDocument by blast
qed

subsection \<open>Focus on showing\<close>

lemma focusDefaultButton_active:
  "activeElement (focusDefaultButton ua x) =
     (let base = (if GECKO ua then Root else activeElement x)
      in case getButtonSet x of
           None \<Rightarrow> base
         | Some bs \<Rightarrow>
             if truthy (getDefault bs)
             then (case firstNamed (keyOf (getDefault bs)) (doc x ButtonBar) of
                     None \<Rightarrow> base
                   | Some b \<Rightarrow> if disabled b then (if WEBKIT ua \<or> OPERA ua then Body else base)
                               else self b)
             else base)"
  by (auto simp: focusDefaultButton_def getButtonSet_def focus_def Let_def split: option.splits)

lemma shownState_active:
  "activeElement (shownState ua d) =
     (let base = (if GECKO ua then Root else activeElement d)
      in case getButtonSet (shownState ua d) of
           None \<Rightarrow> base
         | Some bs \<Rightarrow>
             if truthy (getDefault bs)
             then (case firstNamed (keyOf (getDefault bs)) (doc (shownState ua d) ButtonBar) of
                     None \<Rightarrow> base
                   | Some b \<Rightarrow> if disabled b then (if WEBKIT ua \<or> OPERA ua then Body else base)
                               else self b)
             else base)"
proof -
  let ?x = "(listen RESIZE (listen KEYDOWN (rendered d)))\<lparr>shown := True\<rparr>"
  have 1: "activeElement (shownState ua d) = activeElement (focusDefaultButton ua ?x)"
    by (simp add: shownState_def listen_def)
  have 2: "getButtonSet (shownState ua d) = getButtonSet ?x" "doc (shownState ua d) = doc ?x"
    by (simp_all add: getButtonSet_def listen_def)
  have 3: "activeElement ?x = activeElement d"
    by (simp add: listen_def)
  show ?thesis
    unfolding 1 2 focusDefaultButton_active 3 by (rule refl)
qed

text \<open>
  Claim C7, as stated, fails: the dialog element is focused under \<open>goog.userAgent.GECKO\<close>
  only. A dialog without a button set, shown in a browser that is not Gecko while the
  element \<open>Other 7\<close> of the page has the focus, leaves the focus on that element, not on
  the dialog root.
\<close>

theorem show_focus_counterexample:
  "\<not> visible bare_dialog \<and>
   getButtonSet (snd (setVisible msie accept_all True bare_dialog)) = None \<and>
   visible (snd (setVisible msie accept_all True bare_dialog)) \<and>
   activeElement (snd (setVisible msie accept_all True bare_dialog)) = Other 7 \<and>
   activeElement (snd (setVisible msie accept_all True bare_dialog)) \<noteq> Root"
  by code_simp

text \<open>
  Claim C7, amended. When showing a hidden dialog completes, the dialog is visible, and:
  if the button set has a non-empty default key and the first button of the bar with
  that name is enabled, that button has the focus; if there is no button set, no
  (non-empty) default key, or no button of that name in the bar, the focus is on the
  dialog root element under Gecko and stays where it was in every other browser.
\<close>

theorem show_focus:
  assumes "\<not> visible d" and "setVisible ua L True d = (None, d')"
  shows "visible d' \<and>
         (getButtonSet d' = Some bs \<and> getDefault bs = Some k \<and> k \<noteq> [] \<and>
          firstNamed k (doc d' ButtonBar) = Some b \<and> \<not> disabled b
            \<longrightarrow> activeElement d' = self b) \<and>
         (getButtonSet d' = None \<or>
          (getButtonSet d' = Some bs \<and>
            (\<not> truthy (getDefault bs) \<or>
             firstNamed (keyOf (getDefault bs)) (doc d' ButtonBar) = None))
            \<longrightarrow> activeElement d' = (if GECKO ua then Root else activeElement d))"
proof -
  have "d' = shownState ua d"
    using assms by (auto simp: setVisible_cases split: if_splits)
  then show ?thesis
    by (auto simp: shownState_active truthy_def keyOf_def Let_def split: option.splits)
qed

lemma show_fresh_dialog:
  "\<not> visible fresh_dialog"
  "fst (setVisible safari accept_all True fresh_dialog) = None"
  "getButtonSet (snd (setVisible safari accept_all True fresh_dialog))
     = Some (ButtonSet_OK_CANCEL\<lparr>bs_element := Some ButtonBar\<rparr>)"
  "getDefault (ButtonSet_OK_CANCEL\<lparr>bs_element := Some ButtonBar\<rparr>) = Some ''ok''"
  "firstNamed ''ok'' (doc (snd (setVisible safari accept_all True fresh_dialog)) ButtonBar) = Some ok_button"
  "\<not> disabled ok_button" "self ok_button = Child ButtonBar 0"
  "\<not> visible bare_dialog"
  "fst (setVisible firefox accept_all True bare_dialog) = None"
  "getButtonSet (snd (setVisible firefox accept_all True bare_dialog)) = None"
  by code_simp+

theorem show_focus_witness:
  "\<not> visible fresh_dialog \<and>
   fst (setVisible safari accept_all True fresh_dialog) = None \<and>
   firstNamed ''ok'' (doc (snd (setVisible safari accept_all True fresh_dialog)) ButtonBar) = Some ok_button \<and>
   activeElement (snd (setVisible safari accept_all True fresh_dialog)) = Child ButtonBar 0 \<and>
   \<not> visible bare_dialog \<and>
   fst (setVisible firefox accept_all True bare_dialog) = None \<and>
   getButtonSet (snd (setVisible firefox accept_all True bare_dialog)) = None \<and>
   activeElement (snd (setVisible firefox accept_all True bare_dialog)) = Root"
proof -
  have g: "GECKO firefox"
    by (simp add: firefox_def)
  have c1: "setVisible safari accept_all True fresh_dialog
      = (None, snd (setVisible safari accept_all True fresh_dialog))"
    using show_fresh_dialog(2) by (cases "setVisible safari accept_all True fresh_dialog") simp
  have c2: "setVisible firefox accept_all True bare_dialog
      = (None, snd (setVisible firefox accept_all True bare_dialog))"
    using show_fresh_dialog(9) by (cases "setVisible firefox accept_all True bare_dialog") simp
  from show_focus [OF show_fresh_dialog(1) c1,
      where bs = "ButtonSet_OK_CANCEL\<lparr>bs_element := Some ButtonBar\<rparr>" and k = "''ok''" and b = ok_button]
    show_focus [OF show_fresh_dialog(8) c2, where bs = ButtonSet_new and k = "''ok''" and b = ok_button]
    show_fresh_dialog g
  show ?thesis by simp
qed

subsection \<open>Clicks\<close>


lemma click_ok_button:
  "getButtonSet (shown_dialog firefox) = Some (ButtonSet_OK_CANCEL\<lparr>bs_element := Some ButtonBar\<rparr>)"
  "findParentButton (buttonEl (shown_dialog firefox))
     (target (click ok_button [bar_el, div_el]) # ancestors (click ok_button [bar_el, div_el])) = Some ok_button"
  "\<not> disabled ok_button" "name ok_button = ''ok''"
  "Map_get ''ok'' (entries (ButtonSet_OK_CANCEL\<lparr>bs_element := Some ButtonBar\<rparr>)) = Some (Text ''OK'')"
  "dispatched (shown_dialog firefox) = []"
  "doc (shown_dialog firefox) ButtonBar ! 0 = ok_button"
  by code_simp+


subsection \<open>The escape key\<close>

lemma keyAction_ESC:
  "keyCode e = ESC \<Longrightarrow> keyAction L e d =
     (let cancel = (case getButtonSet d of None \<Rightarrow> None | Some bs \<Rightarrow> getCancel bs);
          special = (tagName (target e) = ''SELECT'' \<and> \<not> disabled (target e))
      in if truthy cancel \<and> \<not> special then
           (case getButtonSet d of
              None \<Rightarrow> Inl TypeError
            | Some bs \<Rightarrow>
                Inr (L (SELECT (keyOf cancel) (Map_get (keyOf cancel) (entries bs))), True,
                     d\<lparr>dispatched := dispatched d @ [SELECT (keyOf cancel) (Map_get (keyOf cancel) (entries bs))]\<rparr>))
         else if \<not> special then Inr (True, False, d)
         else Inr (False, False, d))"
  by (auto simp: keyAction_def Let_def dispatchEvent_def split: option.splits)

text \<open>
  Claim C2, as stated, fails in both halves. Without a cancel key, Escape does not hide
  unconditionally: while an enabled \<open>SELECT\<close> has the focus it does nothing (first
  input: the OK set, focus on a select). And a cancel key that is the empty string is
  registered yet falsy, so Escape hides without dispatching a \<open>SELECT\<close> event (second
  input).
\<close>

theorem escape_key_counterexample:
  "visible ok_only_dialog \<and>
   (case getButtonSet ok_only_dialog of None \<Rightarrow> None | Some bs \<Rightarrow> getCancel bs) = None \<and>
   visible (fst (snd (onKeyDown firefox accept_all (keydown ESC select_el) ok_only_dialog))) \<and>
   visible blank_cancel_dialog \<and>
   (case getButtonSet blank_cancel_dialog of None \<Rightarrow> None | Some bs \<Rightarrow> getCancel bs) = Some [] \<and>
   dispatched blank_cancel_dialog = [] \<and>
   dispatched (fst (snd (onKeyDown firefox accept_all (keydown ESC div_el) blank_cancel_dialog))) = [AFTER_HIDE]"
  by code_simp

text \<open>
  Claim C2, amended. On a visible dialog (in the document or with its focus handler, as
  every visible dialog the operations produce is and has), a keydown of Escape
  \<^item> dispatches one \<open>SELECT\<close> event with the cancel key and its caption, and then hides
    the dialog exactly when the event was not canceled, if the button set has a
    non-empty cancel key and the target is not an enabled \<open>SELECT\<close>;
  \<^item> hides the dialog, dispatching \<open>AFTER_HIDE\<close> and no \<open>SELECT\<close> event, if there is no
    non-empty cancel key and the target is not an enabled \<open>SELECT\<close>;
  \<^item> does nothing if the target is an enabled \<open>SELECT\<close>.
\<close>

theorem escape_key:
  assumes "visible d" and "isInDocument d \<or> focusHandler d" and "keyCode e = ESC"
  shows "(let cancel = (case getButtonSet d of None \<Rightarrow> None | Some bs \<Rightarrow> getCancel bs);
              special = (tagName (target e) = ''SELECT'' \<and> \<not> disabled (target e));
              r = onKeyDown ua L e d
          in (truthy cancel \<and> \<not> special \<and> getButtonSet d = Some bs \<longrightarrow>
                (let ev = SELECT (keyOf cancel) (Map_get (keyOf cancel) (entries bs))
                 in fst r = None \<and>
                    dispatched (fst (snd r)) = dispatched d @ [ev] @ (if L ev then [AFTER_HIDE] else []) \<and>
                    (\<not> visible (fst (snd r)) \<longleftrightarrow> L ev))) \<and>
             (\<not> truthy cancel \<and> \<not> special \<longrightarrow>
                fst r = None \<and> \<not> visible (fst (snd r)) \<and>
                dispatched (fst (snd r)) = dispatched d @ [AFTER_HIDE]) \<and>
             (special \<longrightarrow> r = (None, d, False)))"
  using assms
  by (auto simp: onKeyDown_def keyAction_ESC Let_def hide_result isInDocument_def)

lemma escape_shown_dialog:
  "keyCode (keydown ESC div_el) = ESC"
  "(case getButtonSet (shown_dialog firefox) of None \<Rightarrow> None | Some bs \<Rightarrow> getCancel bs) = Some ''cancel''"
  "tagName (target (keydown ESC div_el)) = ''DIV''"
  "keyCode (keydown ESC select_el) = ESC"
  "tagName (target (keydown ESC select_el)) = ''SELECT''" "\<not> disabled (target (keydown ESC select_el))"
  by code_simp+

theorem escape_key_witness:
  "visible (shown_dialog firefox) \<and> isInDocument (shown_dialog firefox) \<and>
   keyCode (keydown ESC div_el) = ESC \<and>
   dispatched (fst (snd (onKeyDown firefox accept_all (keydown ESC div_el) (shown_dialog firefox))))
     = [SELECT ''cancel'' (Some (Text ''Cancel'')), AFTER_HIDE] \<and>
   \<not> visible (fst (snd (onKeyDown firefox accept_all (keydown ESC div_el) (shown_dialog firefox)))) \<and>
   onKeyDown firefox accept_all (keydown ESC select_el) (shown_dialog firefox)
     = (None, shown_dialog firefox, False)"
proof -
  have v: "visible (shown_dialog firefox)"
    using shown_dialog_visible by simp
  have c: "Map_get ''cancel'' (entries (ButtonSet_OK_CANCEL\<lparr>bs_element := Some ButtonBar\<rparr>))
      = Some (Text ''Cancel'')"
    by code_simp
  from escape_key [OF v shown_dialog_ready escape_shown_dialog(1), where ua = firefox and L = accept_all
      and bs = "ButtonSet_OK_CANCEL\<lparr>bs_element := Some ButtonBar\<rparr>"]
    escape_key [OF v shown_dialog_ready escape_shown_dialog(4), where ua = firefox and L = accept_all
      and bs = "ButtonSet_OK_CANCEL\<lparr>bs_element := Some ButtonBar\<rparr>"]
    v c escape_shown_dialog click_ok_button(1,6) shown_dialog_inDocument
  show ?thesis by (simp add: Let_def truthy_def keyOf_def accept_all_def)
qed

subsection \<open>The enter key\<close>

lemma keys_differ: "ENTER \<noteq> ESC" "TAB \<noteq> ESC" "TAB \<noteq> ENTER"
  by (simp_all add: ESC_def ENTER_def TAB_def)

lemma keyAction_ENTER_button:
  "keyCode e = ENTER \<Longrightarrow> tagName (target e) = ''BUTTON'' \<Longrightarrow> keyAction L e d =
     (if name (target e) \<noteq> []
      then (case getButtonSet d of
              None \<Rightarrow> Inl TypeError
            | Some bs \<Rightarrow>
                Inr (L (SELECT (name (target e)) (Some (Text (js_String (Map_get (name (target e)) (entries bs)))))),
                     True,
                     d\<lparr>dispatched := dispatched d @
                        [SELECT (name (target e)) (Some (Text (js_String (Map_get (name (target e)) (entries bs)))))]\<rparr>))
      else Inr (False, False, d))"
  by (auto simp: keyAction_def Let_def dispatchEvent_def keys_differ truthy_def keyOf_def
      split: option.splits)

lemma keyAction_ENTER_default:
  "keyCode e = ENTER \<Longrightarrow> tagName (target e) \<noteq> ''BUTTON'' \<Longrightarrow> getButtonSet d = Some bs \<Longrightarrow>
   getDefault bs = Some k \<Longrightarrow> k \<noteq> [] \<Longrightarrow> getButton k bs (doc d) = Inr ob \<Longrightarrow>
   keyAction L e d =
     (case ob of
        None \<Rightarrow> Inr (False, False, d)
      | Some b \<Rightarrow>
          if \<not> disabled b \<and>
             \<not> ((tagName (target e) = ''TEXTAREA'' \<or> tagName (target e) = ''SELECT'') \<and> \<not> disabled (target e))
          then Inr (L (SELECT k (Some (Text (js_String (Map_get k (entries bs)))))), True,
                    d\<lparr>dispatched := dispatched d @ [SELECT k (Some (Text (js_String (Map_get k (entries bs)))))]\<rparr>)
          else Inr (False, False, d))"
  by (auto simp: keyAction_def Let_def dispatchEvent_def keys_differ truthy_def keyOf_def
      split: option.splits)

lemma keyAction_ENTER_none:
  "keyCode e = ENTER \<Longrightarrow> tagName (target e) \<noteq> ''BUTTON'' \<Longrightarrow>
   getButtonSet d = None \<or> (getButtonSet d = Some bs \<and> \<not> truthy (getDefault bs)) \<Longrightarrow>
   keyAction L e d = Inr (False, False, d)"
  by (auto simp: keyAction_def Let_def keys_differ truthy_def split: option.splits)

text \<open>
  Claim C3, as stated, fails: a focused button fires only if its name is not empty.
  With the focus on a \<open>button\<close> of the content area that has no name, Enter dispatches
  nothing and leaves the dialog visible.
\<close>

theorem enter_key_counterexample:
  "visible (shown_dialog firefox) \<and> tagName plain_button = ''BUTTON'' \<and>
   dispatched (shown_dialog firefox) = [] \<and>
   dispatched (fst (snd (onKeyDown firefox accept_all (keydown ENTER plain_button) (shown_dialog firefox)))) = [] \<and>
   visible (fst (snd (onKeyDown firefox accept_all (keydown ENTER plain_button) (shown_dialog firefox))))"
  by code_simp

text \<open>
  Claim C3, amended. On a visible dialog (in the document or with its focus handler, as
  every visible dialog the operations produce is and has), a keydown of Enter
  \<^item> with the focus on a \<open>BUTTON\<close> whose name is not empty, on a dialog with a button
    set: dispatches one \<open>SELECT\<close> event with that name as key, and hides the dialog
    exactly when the event was not canceled;
  \<^item> with the focus on a \<open>BUTTON\<close> whose name is empty: does nothing;
  \<^item> with the focus elsewhere: dispatches the \<open>SELECT\<close> event of the default key if the
    button set has a non-empty default key, its container holds a button with that name
    or id, that button is not disabled, and the target is not an enabled \<open>TEXTAREA\<close> or
    \<open>SELECT\<close>; and does nothing if there is no button set, no non-empty default key, no
    such button, or if that button is disabled or the target is an enabled \<open>TEXTAREA\<close>
    or \<open>SELECT\<close>. In particular a disabled default button fires nothing.
\<close>

theorem enter_key:
  assumes "visible d" and "isInDocument d \<or> focusHandler d" and "keyCode e = ENTER"
  shows "(let r = onKeyDown ua L e d;
              special = ((tagName (target e) = ''TEXTAREA'' \<or> tagName (target e) = ''SELECT'')
                         \<and> \<not> disabled (target e));
              selected = (\<lambda>key. SELECT key (Some (Text (js_String (Map_get key (entries bs))))));
              fired = (\<lambda>ev. fst r = None \<and>
                         dispatched (fst (snd r)) = dispatched d @ [ev] @ (if L ev then [AFTER_HIDE] else []) \<and>
                         (\<not> visible (fst (snd r)) \<longleftrightarrow> L ev))
          in (tagName (target e) = ''BUTTON'' \<and> name (target e) \<noteq> [] \<and> getButtonSet d = Some bs
                \<longrightarrow> fired (selected (name (target e)))) \<and>
             (tagName (target e) = ''BUTTON'' \<and> name (target e) = [] \<longrightarrow> r = (None, d, False)) \<and>
             (tagName (target e) \<noteq> ''BUTTON'' \<and> getButtonSet d = Some bs \<and> getDefault bs = Some k \<and>
              k \<noteq> [] \<and> getButton k bs (doc d) = Inr (Some b) \<and> \<not> disabled b \<and> \<not> special
                \<longrightarrow> fired (selected k)) \<and>
             (tagName (target e) \<noteq> ''BUTTON'' \<and>
              (getButtonSet d = None \<or>
               (getButtonSet d = Some bs \<and>
                 (\<not> truthy (getDefault bs) \<or>
                  getButton (keyOf (getDefault bs)) bs (doc d) = Inr None \<or>
                  (getButton (keyOf (getDefault bs)) bs (doc d) = Inr (Some b) \<and> (disabled b \<or> special)))))
                \<longrightarrow> r = (None, d, False)))"
proof -
  have A: "tagName (target e) = ''BUTTON'' \<Longrightarrow> name (target e) \<noteq> [] \<Longrightarrow> getButtonSet d = Some bs \<Longrightarrow>
      onKeyDown ua L e d =
        (let ev = SELECT (name (target e)) (Some (Text (js_String (Map_get (name (target e)) (entries bs)))));
             d1 = d\<lparr>dispatched := dispatched d @ [ev]\<rparr>
         in if L ev then (fst (setVisible ua L False d1), snd (setVisible ua L False d1), True)
            else (None, d1, True))"
    using assms by (simp add: onKeyDown_def keyAction_ENTER_button Let_def)
  have A': "tagName (target e) = ''BUTTON'' \<Longrightarrow> name (target e) = [] \<Longrightarrow>
      onKeyDown ua L e d = (None, d, False)"
    using assms by (simp add: onKeyDown_def keyAction_ENTER_button)
  have B: "tagName (target e) \<noteq> ''BUTTON'' \<Longrightarrow> getButtonSet d = Some bs \<Longrightarrow> getDefault bs = Some k \<Longrightarrow>
      k \<noteq> [] \<Longrightarrow> getButton k bs (doc d) = Inr (Some b) \<Longrightarrow> \<not> disabled b \<Longrightarrow>
      \<not> ((tagName (target e) = ''TEXTAREA'' \<or> tagName (target e) = ''SELECT'') \<and> \<not> disabled (target e)) \<Longrightarrow>
      onKeyDown ua L e d =
        (let ev = SELECT k (Some (Text (js_String (Map_get k (entries bs)))));
             d1 = d\<lparr>dispatched := dispatched d @ [ev]\<rparr>
         in if L ev then (fst (setVisible ua L False d1), snd (setVisible ua L False d1), True)
            else (None, d1, True))"
    using assms by (simp add: onKeyDown_def keyAction_ENTER_default [where ob = "Some b"] Let_def)
  have C1: "tagName (target e) \<noteq> ''BUTTON'' \<Longrightarrow>
      getButtonSet d = None \<or> (getButtonSet d = Some bs \<and> \<not> truthy (getDefault bs)) \<Longrightarrow>
      onKeyDown ua L e d = (None, d, False)"
    using assms by (simp add: onKeyDown_def keyAction_ENTER_none [where bs = bs])
  have C2: "tagName (target e) \<noteq> ''BUTTON'' \<Longrightarrow> getButtonSet d = Some bs \<Longrightarrow> truthy (getDefault bs) \<Longrightarrow>
      getButton (keyOf (getDefault bs)) bs (doc d) = Inr None \<Longrightarrow>
      onKeyDown ua L e d = (None, d, False)"
    using assms
    by (cases "getDefault bs")
       (simp_all add: truthy_def keyOf_def onKeyDown_def keyAction_ENTER_default [where ob = None])
  have C3: "tagName (target e) \<noteq> ''BUTTON'' \<Longrightarrow> getButtonSet d = Some bs \<Longrightarrow> truthy (getDefault bs) \<Longrightarrow>
      getButton (keyOf (getDefault bs)) bs (doc d) = Inr (Some b) \<Longrightarrow>
      disabled b \<or> ((tagName (target e) = ''TEXTAREA'' \<or> tagName (target e) = ''SELECT'') \<and> \<not> disabled (target e)) \<Longrightarrow>
      onKeyDown ua L e d = (None, d, False)"
    using assms
    by (cases "getDefault bs")
       (auto simp: truthy_def keyOf_def onKeyDown_def keyAction_ENTER_default [where ob = "Some b"])
  have hr: "\<And>x. setVisible ua L False (d\<lparr>dispatched := x\<rparr>) =
      (None, if disposeOnHide d \<and> \<not> disposed d
             then (hidden L (d\<lparr>dispatched := x\<rparr>))\<lparr>disposed := True, listening := {},
                    inDocument := False, hasElement := False, focusHandler := False\<rparr>
             else hidden L (d\<lparr>dispatched := x\<rparr>))"
    using assms by (subst hide_result) (auto simp: isInDocument_def)
  show ?thesis
    unfolding Let_def
    apply (intro conjI impI)
            apply (simp_all add: A A' B Let_def hr assms(1))
    using C1 C2 C3 apply blast
    done
qed

lemma enter_shown_dialog:
  "keyCode (keydown ENTER div_el) = ENTER" "tagName (target (keydown ENTER div_el)) = ''DIV''"
  "getDefault (ButtonSet_OK_CANCEL\<lparr>bs_element := Some ButtonBar\<rparr>) = Some ''ok''"
  "getButton ''ok'' (ButtonSet_OK_CANCEL\<lparr>bs_element := Some ButtonBar\<rparr>) (doc (shown_dialog firefox))
     = Inr (Some ok_button)"
  "js_String (Map_get ''ok'' (entries (ButtonSet_OK_CANCEL\<lparr>bs_element := Some ButtonBar\<rparr>))) = ''OK''"
  "keyCode (keydown ENTER plain_button) = ENTER" "tagName (target (keydown ENTER plain_button)) = ''BUTTON''"
  "name (target (keydown ENTER plain_button)) = []"
  by code_simp+

theorem enter_key_witness:
  "visible (shown_dialog firefox) \<and> isInDocument (shown_dialog firefox) \<and>
   keyCode (keydown ENTER div_el) = ENTER \<and>
   dispatched (fst (snd (onKeyDown firefox cancel_all (keydown ENTER div_el) (shown_dialog firefox))))
     = [SELECT ''ok'' (Some (Text ''OK''))] \<and>
   visible (fst (snd (onKeyDown firefox cancel_all (keydown ENTER div_el) (shown_dialog firefox)))) \<and>
   onKeyDown firefox cancel_all (keydown ENTER plain_button) (shown_dialog firefox)
     = (None, shown_dialog firefox, False)"
proof -
  have v: "visible (shown_dialog firefox)"
    using shown_dialog_visible by simp
  from enter_key [OF v shown_dialog_ready enter_shown_dialog(1), where ua = firefox and L = cancel_all
      and bs = "ButtonSet_OK_CANCEL\<lparr>bs_element := Some ButtonBar\<rparr>" and k = "''ok''" and b = ok_button]
    enter_key [OF v shown_dialog_ready enter_shown_dialog(6), where ua = firefox and L = cancel_all
      and bs = "ButtonSet_OK_CANCEL\<lparr>bs_element := Some ButtonBar\<rparr>" and k = "''ok''" and b = ok_button]
    v enter_shown_dialog click_ok_button(1,3,6) shown_dialog_inDocument
  show ?thesis by (simp add: Let_def cancel_all_def)
qed

end
